theory Spec2Isabelle
  imports Complex_Main "HOL-Library.Sublist" "HOL-Library.Char_ord" "HOL-Library.List_Lexorder"
begin

section \<open>Values of the Python program\<close>

text \<open>
  The checkpoint callback \<open>ModelCheckpointYolov4\<close> of \<open>custom_callbacks.py\<close>.
  Python integers are \<open>int\<close>. A Python float is one of the IEEE special values or
  a finite real: the callback only compares floats, and the order of the finite floats
  is the order of the reals they denote.
\<close>

datatype pyfloat = NaN | NegInf | Finite real | PosInf

datatype pyval = PInt int | PFloat pyfloat

text \<open>The exceptions the callback raises or lets through.\<close>

datatype error =
    TypeError
  | ValueError
  | KeyError string      \<comment> \<open>the key that was not found\<close>
  | IndexError
  | AttributeError
  | IsADirectoryError
  | IOError string       \<comment> \<open>with its message, \<open>e.args[0]\<close>\<close>
  | Unmodelled           \<comment> \<open>the input uses a feature of \<open>str.format\<close> outside the modelled fragment\<close>

text \<open>\<open>np.less\<close> and \<open>np.greater\<close>: false whenever an operand is NaN.\<close>

fun fl_less :: "pyfloat \<Rightarrow> pyfloat \<Rightarrow> bool" where
  "fl_less NaN _ = False"
| "fl_less _ NaN = False"
| "fl_less NegInf NegInf = False"
| "fl_less NegInf _ = True"
| "fl_less _ NegInf = False"
| "fl_less (Finite a) (Finite b) = (a < b)"
| "fl_less (Finite _) PosInf = True"
| "fl_less PosInf _ = False"

fun to_float :: "pyval \<Rightarrow> pyfloat" where
  "to_float (PInt i) = Finite (of_int i)"
| "to_float (PFloat f) = f"

definition np_less :: "pyval \<Rightarrow> pyval \<Rightarrow> bool" where
  "np_less a b = fl_less (to_float a) (to_float b)"

definition np_greater :: "pyval \<Rightarrow> pyval \<Rightarrow> bool" where
  "np_greater a b = fl_less (to_float b) (to_float a)"

datatype cmp = Less | Greater

fun apply_op :: "cmp \<Rightarrow> pyval \<Rightarrow> pyval \<Rightarrow> bool" where
  "apply_op Less a b = np_less a b"
| "apply_op Greater a b = np_greater a b"

section \<open>The callback object\<close>

text \<open>
  \<open>save_freq\<close> after a successful construction is the string \<open>"epoch"\<close> or an
  instance of \<open>int\<close>.
\<close>

datatype freq = Epoch | Steps int

datatype save_kind = Weights | Model | NamedModel

datatype event =
    Warning string
  | Save save_kind string
  | RemoveTemp string

record ckpt =
  filepath :: string
  has_model_name :: bool
  monitor :: string
  verbose :: int
  save_best_only :: bool
  save_weights_only :: bool
  save_freq :: freq
  epochs_since_last_save :: int
  batches_seen_since_last_saving :: int
  last_batch_seen :: int
  best :: pyval
  monitor_op :: cmp
  period :: int
  load_weights_on_restart :: bool
  current_epoch :: "int option"
  write_filepath :: "string option"
  events :: "event list"

section \<open>Construction\<close>

text \<open>
  The arguments of \<open>__init__\<close>. \<open>save_freq\<close> and \<open>options\<close> are untyped in the
  source, so the model lists the kinds of value the checks of the constructor tell apart.
  The two deprecated keyword arguments are \<open>None\<close> when absent from \<open>kwargs\<close>.
\<close>

datatype save_freq_arg = SFStr string | SFInt int | SFBool bool | SFFloat pyfloat | SFNone

datatype options_arg = OptNone | OptCheckpointOptions | OptSaveOptions | OptOther

record init_args =
  a_filepath :: string
  a_model_name :: bool
  a_monitor :: string
  a_verbose :: int
  a_save_best_only :: bool
  a_save_weights_only :: bool
  a_mode :: string
  a_save_freq :: save_freq_arg
  a_options :: options_arg
  a_initial_value_threshold :: "pyval option"
  a_load_weights_on_restart :: "bool option"
  a_period :: "int option"

text \<open>The defaults of the signature of \<open>__init__\<close>.\<close>

definition default_args :: "string \<Rightarrow> init_args" where
  "default_args fp =
     \<lparr>a_filepath = fp, a_model_name = False, a_monitor = ''val_loss'', a_verbose = 0,
      a_save_best_only = False, a_save_weights_only = False, a_mode = ''auto'',
      a_save_freq = SFStr ''epoch'', a_options = OptNone, a_initial_value_threshold = None,
      a_load_weights_on_restart = None, a_period = None\<rparr>"

text \<open>The two \<open>isinstance\<close> checks on \<open>options\<close>.\<close>

definition options_ok :: "bool \<Rightarrow> options_arg \<Rightarrow> bool" where
  "options_ok weights_only opts =
     (if weights_only then opts = OptNone \<or> opts = OptCheckpointOptions
      else opts = OptNone \<or> opts = OptSaveOptions)"

text \<open>
  The branches on \<open>mode\<close> (after the fallback): the comparison and the initial value of
  \<open>best\<close>, which stays the given threshold when there is one.
\<close>

definition or_default :: "pyval option \<Rightarrow> pyfloat \<Rightarrow> pyval" where
  "or_default b d = (case b of None \<Rightarrow> PFloat d | Some v \<Rightarrow> v)"

definition resolve_mode :: "string \<Rightarrow> string \<Rightarrow> pyval option \<Rightarrow> cmp \<times> pyval" where
  "resolve_mode mode mon b =
     (if mode = ''min'' then (Less, or_default b PosInf)
      else if mode = ''max'' then (Greater, or_default b NegInf)
      else if sublist ''acc'' mon \<or> prefix ''fmeasure'' mon then (Greater, or_default b NegInf)
      else (Less, or_default b PosInf))"

text \<open>
  \<open>self.save_freq != "epoch" and not isinstance(self.save_freq, int)\<close> raises;
  \<open>bool\<close> is a subclass of \<open>int\<close> in Python.
\<close>

fun check_save_freq :: "save_freq_arg \<Rightarrow> freq option" where
  "check_save_freq (SFStr s) = (if s = ''epoch'' then Some Epoch else None)"
| "check_save_freq (SFInt n) = Some (Steps n)"
| "check_save_freq (SFBool b) = Some (Steps (if b then 1 else 0))"
| "check_save_freq (SFFloat _) = None"
| "check_save_freq SFNone = None"

definition known_mode :: "string \<Rightarrow> bool" where
  "known_mode m = (m \<in> set [''auto'', ''min'', ''max''])"

definition mode_warning :: "string \<Rightarrow> event" where
  "mode_warning m = Warning (''ModelCheckpoint mode '' @ m @ '' is unknown, fallback to auto mode.'')"

definition init_warnings :: "init_args \<Rightarrow> event list" where
  "init_warnings a =
     (if a_load_weights_on_restart a \<noteq> None
      then [Warning ''`load_weights_on_restart` argument is deprecated.''] else []) @
     (if a_period a \<noteq> None then [Warning ''`period` argument is deprecated.''] else []) @
     (if known_mode (a_mode a) then [] else [mode_warning (a_mode a)])"

text \<open>
  \<open>__init__\<close>: the \<open>TypeError\<close> of the options check comes first, the
  \<open>ValueError\<close> of the \<open>save_freq\<close> check last. The warnings logged on the way
  are the first events of the new object.
\<close>

definition init :: "init_args \<Rightarrow> error + ckpt" where
  "init a =
     (if \<not> options_ok (a_save_weights_only a) (a_options a) then Inl TypeError
      else
        let mode = (if known_mode (a_mode a) then a_mode a else ''auto'');
            r = resolve_mode mode (a_monitor a) (a_initial_value_threshold a)
        in case check_save_freq (a_save_freq a) of
             None \<Rightarrow> Inl ValueError
           | Some f \<Rightarrow>
               Inr \<lparr>filepath = a_filepath a, has_model_name = a_model_name a,
                    monitor = a_monitor a, verbose = a_verbose a,
                    save_best_only = a_save_best_only a,
                    save_weights_only = a_save_weights_only a,
                    save_freq = f, epochs_since_last_save = 0,
                    batches_seen_since_last_saving = 0, last_batch_seen = 0,
                    best = snd r, monitor_op = fst r,
                    period = (case a_period a of None \<Rightarrow> 1 | Some p \<Rightarrow> p),
                    load_weights_on_restart =
                      (case a_load_weights_on_restart a of None \<Rightarrow> False | Some l \<Rightarrow> l),
                    current_epoch = None, write_filepath = None,
                    events = init_warnings a\<rparr>)"

section \<open>Saving every n batches\<close>

text \<open>\<open>_should_save_on_batch\<close>: the answer and the updated object.\<close>

definition should_save_on_batch :: "ckpt \<Rightarrow> int \<Rightarrow> bool \<times> ckpt" where
  "should_save_on_batch self batch =
     (case save_freq self of
        Epoch \<Rightarrow> (False, self)
      | Steps n \<Rightarrow>
          (let add_batches = (if batch \<le> last_batch_seen self then batch + 1
                              else batch - last_batch_seen self);
               self1 = self\<lparr>batches_seen_since_last_saving :=
                               batches_seen_since_last_saving self + add_batches,
                            last_batch_seen := batch\<rparr>
           in if n \<le> batches_seen_since_last_saving self1
              then (True, self1\<lparr>batches_seen_since_last_saving := 0\<rparr>)
              else (False, self1)))"

text \<open>The answers of \<open>_should_save_on_batch\<close> over successive calls.\<close>

fun feed_batches :: "ckpt \<Rightarrow> int list \<Rightarrow> bool list \<times> ckpt" where
  "feed_batches self [] = ([], self)"
| "feed_batches self (b # bs) =
     (case should_save_on_batch self b of
        (r, self1) \<Rightarrow> (case feed_batches self1 bs of (rs, self2) \<Rightarrow> (r # rs, self2)))"

text \<open>
  What the specification asks of the step mode, in its own words: a trigger when the
  steps observed since the last trigger reach \<open>n\<close>, the counter then restarting at
  zero. The index of a step restarts at zero with each epoch, so an index not above the
  one before it is a new epoch and stands for \<open>index + 1\<close> steps, as does the first
  index of the session; any other stands for the steps since the one before it.
\<close>

fun spec_triggers :: "int \<Rightarrow> int option \<Rightarrow> int \<Rightarrow> int list \<Rightarrow> bool list" where
  "spec_triggers n prev seen [] = []"
| "spec_triggers n prev seen (b # bs) =
     (let steps = (case prev of
                     None \<Rightarrow> b + 1
                   | Some p \<Rightarrow> if b \<le> p then b + 1 else b - p);
          total = seen + steps
      in if n \<le> total then True # spec_triggers n (Some b) 0 bs
         else False # spec_triggers n (Some b) total bs)"

section \<open>Formatting the file path\<close>

text \<open>
  What the callback cannot decide by itself is a parameter: how Python's \<open>format\<close>
  renders a value under a format specification other than the integer ones modelled
  below, where \<open>distributed_file_utils.write_filepath\<close> sends a path, and whether a
  call of \<open>save\<close> or \<open>save_weights\<close> raises.
\<close>

record env =
  format_other :: "pyval \<Rightarrow> string \<Rightarrow> error + string"
  write_filepath_fn :: "string \<Rightarrow> string"
  try_save :: "save_kind \<Rightarrow> string \<Rightarrow> error option"

type_synonym logs = "string \<rightharpoonup> pyval"

text \<open>
  A call \<open>f(k=v, ..., **logs)\<close> raises \<open>TypeError\<close> when \<open>logs\<close> has one of the
  keywords written out in the call.
\<close>

fun call_kwargs :: "(string \<times> pyval) list \<Rightarrow> logs \<Rightarrow> error + logs" where
  "call_kwargs [] logs = Inr logs"
| "call_kwargs ((k, v) # kvs) logs =
     (if logs k \<noteq> None then Inl TypeError
      else case call_kwargs kvs logs of Inl e \<Rightarrow> Inl e | Inr m \<Rightarrow> Inr (m(k \<mapsto> v)))"

subsection \<open>Integers under the format specifications \<open>[0][width][d]\<close>\<close>

definition is_digit :: "char \<Rightarrow> bool" where
  "is_digit c = (c \<in> set ''0123456789'')"

definition digit_char :: "nat \<Rightarrow> char" where
  "digit_char d = ''0123456789'' ! d"

function str_nat :: "nat \<Rightarrow> string" where
  "str_nat n = (if n < 10 then [digit_char n] else str_nat (n div 10) @ [digit_char (n mod 10)])"
  by pat_completeness auto
termination
  by (relation "measure id") auto

declare str_nat.simps [simp del]

definition digit_val :: "char \<Rightarrow> nat" where
  "digit_val c = of_char c - 48"

definition nat_of_digits :: "string \<Rightarrow> nat" where
  "nat_of_digits ds = foldl (\<lambda>a c. 10 * a + digit_val c) 0 ds"

text \<open>
  A number written in a template with more digits than a \<open>Py_ssize_t\<close> holds (64
  bits) is a \<open>ValueError\<close>.
\<close>

definition too_many_digits :: "string \<Rightarrow> bool" where
  "too_many_digits ds = (nat_of_digits ds > 9223372036854775807)"

text \<open>
  \<open>format(i, spec)\<close> for an integer: the empty specification is \<open>str(i)\<close>; a leading
  \<open>0\<close> pads with zeros after the sign, a width alone pads with spaces on the left.
  Every other specification is left to \<open>format_other\<close>.
\<close>

definition format_int :: "env \<Rightarrow> int \<Rightarrow> string \<Rightarrow> error + string" where
  "format_int env i spec =
     (let zero = (case spec of [] \<Rightarrow> False | c # _ \<Rightarrow> c = CHR ''0'');
          s1 = (if zero then tl spec else spec);
          ty = dropWhile is_digit s1
      in if ty = [] \<or> ty = ''d'' then
           (if too_many_digits (takeWhile is_digit s1) then Inl ValueError
            else
              let width = nat_of_digits (takeWhile is_digit s1);
                  sign = (if i < 0 then ''-'' else []);
                  ds = str_nat (nat \<bar>i\<bar>);
                  pad = width - (length sign + length ds)
              in Inr (if zero then sign @ replicate pad (CHR ''0'') @ ds
                      else replicate pad (CHR '' '') @ sign @ ds))
         else format_other env (PInt i) spec)"

fun format_value :: "env \<Rightarrow> pyval \<Rightarrow> string \<Rightarrow> error + string" where
  "format_value env (PInt i) spec = format_int env i spec"
| "format_value env (PFloat f) spec = format_other env (PFloat f) spec"

subsection \<open>The template\<close>

text \<open>
  \<open>str.format\<close> reads the template from left to right: \<open>{{\<close> and \<open>}}\<close> stand for a
  brace, \<open>{name}\<close> and \<open>{name:spec}\<close> are replacement fields, a lone brace is a
  \<open>ValueError\<close>. The first error ends the reading, so the segments of a template end
  at its first malformed place. Conversions (\<open>!r\<close>), attribute and index lookups in a
  field name and fields nested in a specification are outside the model.
\<close>

datatype segment = Lit char | Fld string string | Bad error

fun parse_spec :: "string \<Rightarrow> error + (string \<times> string)" where
  "parse_spec [] = Inl ValueError"
| "parse_spec (c # cs) =
     (if c = CHR ''}'' then Inr ([], cs)
      else if c = CHR ''{'' then Inl Unmodelled
      else case parse_spec cs of Inl e \<Rightarrow> Inl e | Inr (spec, rest) \<Rightarrow> Inr (c # spec, rest))"

fun parse_field :: "string \<Rightarrow> error + (string \<times> string \<times> string)" where
  "parse_field [] = Inl ValueError"
| "parse_field (c # cs) =
     (if c = CHR ''{'' then Inl ValueError
      else if c = CHR ''}'' then Inr ([], [], cs)
      else if c = CHR '':'' then
        (case parse_spec cs of Inl e \<Rightarrow> Inl e | Inr (spec, rest) \<Rightarrow> Inr ([], spec, rest))
      else if c \<in> set ''![.'' then Inl Unmodelled
      else case parse_field cs of
             Inl e \<Rightarrow> Inl e
           | Inr (name, spec, rest) \<Rightarrow> Inr (c # name, spec, rest))"

lemma parse_spec_shorter: "parse_spec cs = Inr (spec, rest) \<Longrightarrow> length rest < length cs"
  by (induction cs arbitrary: spec rest) (auto split: if_splits sum.splits)

lemma parse_field_shorter:
  "parse_field cs = Inr (name, spec, rest) \<Longrightarrow> length rest < length cs"
  by (induction cs arbitrary: name spec rest)
     (auto split: if_splits sum.splits dest: parse_spec_shorter)

function tokenize :: "string \<Rightarrow> segment list" where
  "tokenize [] = []"
| "tokenize (c # cs) =
     (if c = CHR ''}'' then
        (case cs of
           [] \<Rightarrow> [Bad ValueError]
         | d # r \<Rightarrow> if d = CHR ''}'' then Lit c # tokenize r else [Bad ValueError])
      else if c = CHR ''{'' then
        (case cs of
           [] \<Rightarrow> [Bad ValueError]
         | d # r \<Rightarrow>
             if d = CHR ''{'' then Lit c # tokenize r
             else (case parse_field cs of
                     Inl e \<Rightarrow> [Bad e]
                   | Inr (name, spec, rest) \<Rightarrow> Fld name spec # tokenize rest))
      else Lit c # tokenize cs)"
  by pat_completeness auto
termination
  by (relation "measure length")
     (auto simp del: parse_field.simps dest!: parse_field_shorter)

text \<open>
  A field name of digits only, or empty, is a position in the positional arguments, of
  which the call has none: an \<open>IndexError\<close>, or the \<open>ValueError\<close> of a number
  with too many digits. Any other name is a key of the keyword arguments.
\<close>

definition render_field :: "env \<Rightarrow> logs \<Rightarrow> string \<Rightarrow> string \<Rightarrow> error + string" where
  "render_field env kw name spec =
     (if list_all is_digit name
      then (if too_many_digits name then Inl ValueError else Inl IndexError)
      else case kw name of None \<Rightarrow> Inl (KeyError name) | Some v \<Rightarrow> format_value env v spec)"

fun render :: "env \<Rightarrow> logs \<Rightarrow> segment list \<Rightarrow> error + string" where
  "render env kw [] = Inr []"
| "render env kw (Lit c # segs) =
     (case render env kw segs of Inl e \<Rightarrow> Inl e | Inr t \<Rightarrow> Inr (c # t))"
| "render env kw (Fld name spec # segs) =
     (case render_field env kw name spec of
        Inl e \<Rightarrow> Inl e
      | Inr s \<Rightarrow> (case render env kw segs of Inl e \<Rightarrow> Inl e | Inr t \<Rightarrow> Inr (s @ t)))"
| "render env kw (Bad e # segs) = Inl e"

definition py_format :: "env \<Rightarrow> string \<Rightarrow> logs \<Rightarrow> error + string" where
  "py_format env template kw = render env kw (tokenize template)"

subsection \<open>\<open>_get_file_path\<close>\<close>

text \<open>
  The \<open>KeyError\<close> of the formatting is raised again as a \<open>KeyError\<close> whose message
  quotes the template and the key; every other error passes through.
\<close>

text \<open>
  The keyword arguments of the call of \<open>format\<close>: \<open>epoch + 1\<close> and the logs, and
  \<open>batch + 1\<close> when there is a batch and the logs have no \<open>batch\<close> of their own.
\<close>

definition format_kwargs :: "int \<Rightarrow> int option \<Rightarrow> logs \<Rightarrow> error + logs" where
  "format_kwargs epoch batch logs =
     (case batch of
        None \<Rightarrow> call_kwargs [(''epoch'', PInt (epoch + 1))] logs
      | Some b \<Rightarrow>
          if logs ''batch'' \<noteq> None
          then call_kwargs [(''epoch'', PInt (epoch + 1))] logs
          else call_kwargs [(''epoch'', PInt (epoch + 1)), (''batch'', PInt (b + 1))] logs)"

definition get_file_path ::
  "env \<Rightarrow> ckpt \<Rightarrow> int \<Rightarrow> int option \<Rightarrow> logs \<Rightarrow> error + (string \<times> ckpt)" where
  "get_file_path env self epoch batch logs =
     (case format_kwargs epoch batch logs of
        Inl e \<Rightarrow> Inl e
      | Inr kw \<Rightarrow>
          (case py_format env (filepath self) kw of
             Inl e \<Rightarrow> Inl e
           | Inr file_path \<Rightarrow>
               (let w = write_filepath_fn env file_path
                in Inr (w, self\<lparr>write_filepath := Some w\<rparr>))))"

section \<open>Saving the model\<close>

definition the_save_kind :: "ckpt \<Rightarrow> save_kind" where
  "the_save_kind self =
     (if save_weights_only self then Weights
      else if has_model_name self then NamedModel else Model)"

text \<open>
  A call of \<open>save\<close> or \<open>save_weights\<close>: the call is an event, and the environment
  says whether it raises.
\<close>

definition write_model :: "env \<Rightarrow> ckpt \<Rightarrow> string \<Rightarrow> error option \<times> ckpt" where
  "write_model env self fp =
     (let k = the_save_kind self
      in (try_save env k fp, self\<lparr>events := events self @ [Save k fp]\<rparr>))"

definition skip_warning :: "string \<Rightarrow> event" where
  "skip_warning mon = Warning (''Can save best model only with '' @ mon @ '' available, skipping.'')"

text \<open>The body of the \<open>try\<close> block up to \<open>_maybe_remove_file\<close>.\<close>

definition try_body :: "env \<Rightarrow> ckpt \<Rightarrow> string \<Rightarrow> logs \<Rightarrow> error option \<times> ckpt" where
  "try_body env self fp logs =
     (if save_best_only self then
        (case logs (monitor self) of
           None \<Rightarrow> (None, self\<lparr>events := events self @ [skip_warning (monitor self)]\<rparr>)
         | Some current \<Rightarrow>
             if apply_op (monitor_op self) current (best self)
             then write_model env (self\<lparr>best := current\<rparr>) fp
             else (None, self))
      else write_model env self fp)"

definition lower_char :: "char \<Rightarrow> char" where
  "lower_char c = (if CHR ''A'' \<le> c \<and> c \<le> CHR ''Z'' then char_of (of_char c + (32::nat)) else c)"

definition directory_error :: "string \<Rightarrow> error" where
  "directory_error fp =
     IOError (''Please specify a non-directory filepath for ModelCheckpoint. '' @
              ''Filepath used is an existing directory: '' @ fp)"

text \<open>The two \<open>except\<close> clauses.\<close>

fun handle_io :: "string \<Rightarrow> error \<Rightarrow> error" where
  "handle_io fp IsADirectoryError = directory_error fp"
| "handle_io fp (IOError msg) =
     (if sublist ''is a directory'' (map lower_char msg) then directory_error (CHR ''f'' # fp)
      else IOError msg)"
| "handle_io fp e = e"

text \<open>
  \<open>_save_model\<close>: the exception, if one leaves the method, and the object as the method
  leaves it. \<open>isinstance(self.save_freq, int)\<close> holds exactly in step mode. The
  messages printed under \<open>verbose\<close> change nothing and are left out.
\<close>

definition save_model ::
  "env \<Rightarrow> ckpt \<Rightarrow> int \<Rightarrow> int option \<Rightarrow> logs option \<Rightarrow> error option \<times> ckpt" where
  "save_model env self epoch batch logs0 =
     (let logs = (case logs0 of None \<Rightarrow> Map.empty | Some l \<Rightarrow> l)
      in if save_freq self \<noteq> Epoch \<or> period self \<le> epochs_since_last_save self then
           (let self1 = self\<lparr>epochs_since_last_save := 0\<rparr>
            in case get_file_path env self1 epoch batch logs of
                 Inl e \<Rightarrow> (Some e, self1)
               | Inr (fp, self2) \<Rightarrow>
                   (case try_body env self2 fp logs of
                      (Some e, self3) \<Rightarrow> (Some (handle_io fp e), self3)
                    | (None, self3) \<Rightarrow>
                        (None, self3\<lparr>events := events self3 @ [RemoveTemp fp]\<rparr>)))
         else (None, self))"

section \<open>The hooks\<close>

definition on_epoch_begin :: "ckpt \<Rightarrow> int \<Rightarrow> ckpt" where
  "on_epoch_begin self epoch = self\<lparr>current_epoch := Some epoch\<rparr>"

text \<open>Reading \<open>self._current_epoch\<close> before any \<open>on_epoch_begin\<close> is an \<open>AttributeError\<close>.\<close>

definition on_train_batch_end ::
  "env \<Rightarrow> ckpt \<Rightarrow> int \<Rightarrow> logs option \<Rightarrow> error option \<times> ckpt" where
  "on_train_batch_end env self batch logs =
     (case should_save_on_batch self batch of
        (True, self1) \<Rightarrow>
          (case current_epoch self1 of
             None \<Rightarrow> (Some AttributeError, self1)
           | Some epoch \<Rightarrow> save_model env self1 epoch (Some batch) logs)
      | (False, self1) \<Rightarrow> (None, self1))"

definition on_epoch_end :: "env \<Rightarrow> ckpt \<Rightarrow> int \<Rightarrow> logs option \<Rightarrow> error option \<times> ckpt" where
  "on_epoch_end env self epoch logs =
     (let self1 = self\<lparr>epochs_since_last_save := epochs_since_last_save self + 1\<rparr>
      in if save_freq self1 = Epoch then save_model env self1 epoch None logs
         else (None, self1))"

text \<open>
  A training session as the callback sees it: the hooks in the order of their calls,
  each with the environment of its moment. An exception that leaves a hook ends the
  session.
\<close>

datatype hook = EpochBegin int | EpochEnd int "logs option" | TrainBatchEnd int "logs option"

fun call_hook :: "env \<Rightarrow> hook \<Rightarrow> ckpt \<Rightarrow> error option \<times> ckpt" where
  "call_hook env (EpochBegin epoch) self = (None, on_epoch_begin self epoch)"
| "call_hook env (EpochEnd epoch logs) self = on_epoch_end env self epoch logs"
| "call_hook env (TrainBatchEnd batch logs) self = on_train_batch_end env self batch logs"

fun run :: "(env \<times> hook) list \<Rightarrow> ckpt \<Rightarrow> error option \<times> ckpt" where
  "run [] self = (None, self)"
| "run ((env, h) # hs) self =
     (case call_hook env h self of
        (Some e, self1) \<Rightarrow> (Some e, self1)
      | (None, self1) \<Rightarrow> run hs self1)"

section \<open>Finding the file to restore\<close>

text \<open>
  The file system as \<open>_get_most_recently_modified_file_matching_pattern\<close> reads it.
  \<open>name_matches base_name file_name\<close> stands for
  \<open>re.match("^" + re.sub(r"{.*}", r".*", base_name) + "$", file_name)\<close>; \<open>listdir\<close>
  gives the names in the order \<open>os.listdir\<close> returns them. Modification times are
  only compared, so a real number stands for the float.
\<close>

record fs =
  latest_checkpoint :: "string \<Rightarrow> string option"
  dir_exists :: "string \<Rightarrow> bool"
  listdir :: "string \<Rightarrow> string list"
  getmtime :: "string \<Rightarrow> real"
  name_matches :: "string \<Rightarrow> string \<Rightarrow> bool"

text \<open>\<open>os.path.basename\<close>, \<open>os.path.dirname\<close> and \<open>os.path.join\<close> of \<open>posixpath\<close>.\<close>

definition basename :: "string \<Rightarrow> string" where
  "basename p = rev (takeWhile (\<lambda>c. c \<noteq> CHR ''/'') (rev p))"

definition dirname :: "string \<Rightarrow> string" where
  "dirname p =
     (let head = rev (dropWhile (\<lambda>c. c \<noteq> CHR ''/'') (rev p))
      in if head \<noteq> [] \<and> \<not> list_all (\<lambda>c. c = CHR ''/'') head
         then rev (dropWhile (\<lambda>c. c = CHR ''/'') (rev head))
         else head)"

definition path_join :: "string \<Rightarrow> string \<Rightarrow> string" where
  "path_join a b =
     (if prefix ''/'' b then b
      else if a = [] \<or> suffix ''/'' a then a @ b
      else a @ ''/'' @ b)"

text \<open>The four variables of the loop over the directory.\<close>

record scan =
  latest_mod_time :: real
  file_path_with_latest_mod_time :: "string option"
  n_file_with_latest_mod_time :: nat
  file_path_with_largest_file_name :: "string option"

definition scan_init :: scan where
  "scan_init = \<lparr>latest_mod_time = 0, file_path_with_latest_mod_time = None,
                 n_file_with_latest_mod_time = 0, file_path_with_largest_file_name = None\<rparr>"

text \<open>One turn of the loop.\<close>

definition scan_step :: "fs \<Rightarrow> string \<Rightarrow> string \<Rightarrow> scan \<Rightarrow> string \<Rightarrow> scan" where
  "scan_step f dir_name base_name st file_name =
     (if name_matches f base_name file_name then
        (let file_path = path_join dir_name file_name;
             mod_time = getmtime f file_path;
             st1 = (case file_path_with_largest_file_name st of
                      None \<Rightarrow> st\<lparr>file_path_with_largest_file_name := Some file_path\<rparr>
                    | Some largest \<Rightarrow>
                        if file_path > largest
                        then st\<lparr>file_path_with_largest_file_name := Some file_path\<rparr>
                        else st)
         in if mod_time > latest_mod_time st1 then
              st1\<lparr>latest_mod_time := mod_time,
                  file_path_with_latest_mod_time := Some file_path,
                  n_file_with_latest_mod_time := 1\<rparr>
            else if mod_time = latest_mod_time st1 then
              st1\<lparr>n_file_with_latest_mod_time := n_file_with_latest_mod_time st1 + 1\<rparr>
            else st1)
      else st)"

definition scan_dir :: "fs \<Rightarrow> string \<Rightarrow> string \<Rightarrow> scan" where
  "scan_dir f dir_name base_name =
     (if dir_exists f dir_name
      then foldl (scan_step f dir_name base_name) scan_init (listdir f dir_name)
      else scan_init)"

definition get_most_recently_modified_file_matching_pattern ::
  "fs \<Rightarrow> string \<Rightarrow> string option" where
  "get_most_recently_modified_file_matching_pattern f pattern =
     (let dir_name = dirname pattern;
          base_name = basename pattern;
          st = scan_dir f dir_name base_name;
          scanned = (if n_file_with_latest_mod_time st = 1
                     then file_path_with_latest_mod_time st
                     else file_path_with_largest_file_name st)
      in case latest_checkpoint f dir_name of
           None \<Rightarrow> scanned
         | Some latest_tf_checkpoint \<Rightarrow>
             if name_matches f base_name (basename latest_tf_checkpoint)
             then Some latest_tf_checkpoint
             else scanned)"

text \<open>
  What the specification asks of the scan, in its own words: among the matching entries,
  given with their modification times, the one modified last, and among several
  modified last the greatest path.
\<close>

definition spec_locate :: "(string \<times> real) list \<Rightarrow> string option" where
  "spec_locate entries =
     (if entries = [] then None
      else let latest = Max (set (map snd entries))
           in Some (Max (set (map fst (filter (\<lambda>e. snd e = latest) entries)))))"

text \<open>The matching entries of a directory, as full paths with their modification times.\<close>

definition matching_entries :: "fs \<Rightarrow> string \<Rightarrow> string \<Rightarrow> (string \<times> real) list" where
  "matching_entries f dir_name base_name =
     map (\<lambda>n. (path_join dir_name n, getmtime f (path_join dir_name n)))
         (filter (name_matches f base_name) (listdir f dir_name))"

text \<open>
  A directory with three checkpoints named after the validation loss: the first epoch
  wrote the one with the greatest name, two later saves have the same, later time.
\<close>

definition three_losses :: fs where
  "three_losses =
     \<lparr>latest_checkpoint = (\<lambda>d. None),
      dir_exists = (\<lambda>d. d = ''ckpts''),
      listdir = (\<lambda>d. [''w.0.90.h5'', ''w.0.50.h5'', ''w.0.40.h5'']),
      getmtime = (\<lambda>p. if p = ''ckpts/w.0.90.h5'' then 100 else 200),
      name_matches = (\<lambda>b n. prefix ''w.'' n \<and> suffix ''.h5'' n)\<rparr>"

text \<open>The directory of the docstring, its three files modified at the same time.\<close>

definition three_tied :: fs where
  "three_tied =
     \<lparr>latest_checkpoint = (\<lambda>d. None),
      dir_exists = (\<lambda>d. d = ''tmp''),
      listdir = (\<lambda>d. [''f.batch02epoch02.h5'', ''f.batch03epoch02.h5'', ''f.batch01epoch01.h5'']),
      getmtime = (\<lambda>p. 200),
      name_matches = (\<lambda>b n. prefix ''f.batch'' n \<and> suffix ''.h5'' n)\<rparr>"

section \<open>Concrete inputs\<close>

text \<open>
  A single worker whose saves succeed: \<open>write_filepath\<close> returns the path it is given.
  Only integers under the modelled specifications are rendered.
\<close>

definition plain_env :: env where
  "plain_env = \<lparr>format_other = (\<lambda>v spec. Inl Unmodelled),
                 write_filepath_fn = (\<lambda>p. p),
                 try_save = (\<lambda>k p. None)\<rparr>"

definition no_logs :: logs where
  "no_logs = Map.empty"

definition loss_logs :: "real \<Rightarrow> logs" where
  "loss_logs x = [''val_loss'' \<mapsto> PFloat (Finite x)]"

text \<open>Logs in the style of older Keras versions, which list the batch index.\<close>

definition batch_logs :: logs where
  "batch_logs = [''batch'' \<mapsto> PInt 2]"

definition epoch_logs :: logs where
  "epoch_logs = [''epoch'' \<mapsto> PInt 0]"

text \<open>Three epochs of a session that saves the best model only, by the validation loss.\<close>

definition three_epochs :: "(env \<times> hook) list" where
  "three_epochs =
     [(plain_env, EpochBegin 0), (plain_env, EpochEnd 0 (Some (loss_logs (1/2)))),
      (plain_env, EpochBegin 1), (plain_env, EpochEnd 1 (Some (loss_logs (7/10)))),
      (plain_env, EpochBegin 2), (plain_env, EpochEnd 2 (Some (loss_logs (3/10))))]"

definition best_only_args :: init_args where
  "best_only_args = (default_args ''w.{epoch:02d}.h5'')\<lparr>a_save_best_only := True, a_mode := ''min''\<rparr>"

section \<open>Auxiliary facts\<close>

lemma render_append:
  "render env kw (xs @ ys) =
     (case render env kw xs of
        Inl e \<Rightarrow> Inl e
      | Inr a \<Rightarrow> (case render env kw ys of Inl e \<Rightarrow> Inl e | Inr b \<Rightarrow> Inr (a @ b)))"
  by (induction xs rule: render.induct[of _ env kw]) (auto split: sum.splits)

lemma render_fields_supplied:
  "render env kw segs = Inr out \<Longrightarrow> Fld name spec \<in> set segs \<Longrightarrow>
     kw name \<noteq> None \<and> \<not> list_all is_digit name"
  by (induction segs arbitrary: out rule: render.induct[of _ env kw])
     (auto simp: render_field_def split: sum.splits if_splits option.splits)

lemma format_kwargs_Inr:
  "format_kwargs epoch batch logs = Inr kw \<longleftrightarrow>
     logs ''epoch'' = None \<and>
     kw = (case batch of
             None \<Rightarrow> logs(''epoch'' \<mapsto> PInt (epoch + 1))
           | Some b \<Rightarrow> if logs ''batch'' \<noteq> None then logs(''epoch'' \<mapsto> PInt (epoch + 1))
                       else logs(''batch'' \<mapsto> PInt (b + 1), ''epoch'' \<mapsto> PInt (epoch + 1)))"
  by (auto simp: format_kwargs_def split: option.splits)

lemma format_kwargs_Inl:
  "format_kwargs epoch batch logs = Inl e \<longleftrightarrow> logs ''epoch'' \<noteq> None \<and> e = TypeError"
  by (auto simp: format_kwargs_def split: option.splits)

lemma fl_less_trans: "fl_less a b \<Longrightarrow> fl_less b c \<Longrightarrow> fl_less a c"
  by (cases a; cases b; cases c) auto

lemma apply_op_trans: "apply_op m a b \<Longrightarrow> apply_op m b c \<Longrightarrow> apply_op m a c"
  by (cases m) (auto simp: np_less_def np_greater_def intro: fl_less_trans)

lemma get_file_path_keeps:
  "get_file_path env self epoch batch logs = Inr (fp, self') \<Longrightarrow>
     self' = self\<lparr>write_filepath := Some fp\<rparr>"
  by (auto simp: get_file_path_def Let_def split: sum.splits)

lemma try_body_best:
  "try_body env self fp logs = (r, self') \<Longrightarrow>
     monitor_op self' = monitor_op self \<and>
     (best self' = best self \<or>
      save_best_only self \<and> logs (monitor self) = Some (best self') \<and>
      apply_op (monitor_op self) (best self') (best self))"
  by (auto simp: try_body_def write_model_def Let_def split: if_splits option.splits)

lemma save_model_best:
  "save_model env self epoch batch logs0 = (r, self') \<Longrightarrow>
     monitor_op self' = monitor_op self \<and>
     (best self' = best self \<or>
      save_best_only self \<and>
      (case logs0 of None \<Rightarrow> Map.empty | Some l \<Rightarrow> l) (monitor self) = Some (best self') \<and>
      apply_op (monitor_op self) (best self') (best self))"
  unfolding save_model_def Let_def
  by (auto split: if_splits sum.splits prod.splits option.splits
           dest!: get_file_path_keeps try_body_best)


lemma should_save_on_batch_keeps:
  "should_save_on_batch self batch = (r, self') \<Longrightarrow>
     best self' = best self \<and> monitor_op self' = monitor_op self \<and>
     save_best_only self' = save_best_only self \<and> monitor self' = monitor self"
  by (auto simp: should_save_on_batch_def Let_def split: freq.splits if_splits)

lemma call_hook_best:
  "call_hook env h self = (r, self') \<Longrightarrow>
     monitor_op self' = monitor_op self \<and>
     (best self' = best self \<or> apply_op (monitor_op self) (best self') (best self))"
proof (cases h)
  case (EpochBegin e)
  assume "call_hook env h self = (r, self')"
  with EpochBegin show ?thesis by (auto simp: on_epoch_begin_def)
next
  case (EpochEnd e l)
  assume "call_hook env h self = (r, self')"
  with EpochEnd show ?thesis
    by (auto simp: on_epoch_end_def Let_def split: if_splits dest!: save_model_best)
next
  case (TrainBatchEnd b l)
  assume "call_hook env h self = (r, self')"
  with TrainBatchEnd show ?thesis
    by (auto simp: on_train_batch_end_def split: prod.splits bool.splits option.splits if_splits
             dest!: save_model_best should_save_on_batch_keeps)
qed

lemma run_best:
  "run hs self = (r, self') \<Longrightarrow>
     monitor_op self' = monitor_op self \<and>
     (best self' = best self \<or> apply_op (monitor_op self) (best self') (best self))"
proof (induction hs arbitrary: self)
  case Nil
  then show ?case by simp
next
  case (Cons eh hs)
  obtain env h where eh: "eh = (env, h)" by (cases eh)
  obtain r1 s1 where c: "call_hook env h self = (r1, s1)" by (cases "call_hook env h self")
  from call_hook_best [OF c]
  have m1: "monitor_op s1 = monitor_op self"
    and b1: "best s1 = best self \<or> apply_op (monitor_op self) (best s1) (best self)"
    by auto
  show ?case
  proof (cases r1)
    case (Some e)
    with Cons.prems eh c have "self' = s1" by simp
    with m1 b1 show ?thesis by simp
  next
    case None
    with Cons.prems eh c have "run hs s1 = (r, self')" by simp
    from Cons.IH [OF this]
    have "monitor_op self' = monitor_op s1"
      and "best self' = best s1 \<or> apply_op (monitor_op s1) (best self') (best s1)"
      by auto
    with m1 b1 show ?thesis
      by (auto intro: apply_op_trans)
  qed
qed

lemma init_best:
  "init a = Inr self \<Longrightarrow>
     best self = (case a_initial_value_threshold a of
                    Some v \<Rightarrow> v
                  | None \<Rightarrow> if monitor_op self = Less then PFloat PosInf else PFloat NegInf)"
  by (auto simp: init_def Let_def resolve_mode_def or_default_def
           split: if_splits option.splits)

lemma init_min_max:
  "init a = Inr self \<Longrightarrow>
     (a_mode a = ''min'' \<longrightarrow> monitor_op self = Less) \<and>
     (a_mode a = ''max'' \<longrightarrow> monitor_op self = Greater)"
  by (auto simp: init_def Let_def resolve_mode_def known_mode_def
           split: if_splits option.splits)


lemmas eval_defs =
  init_def Let_def default_args_def options_ok_def known_mode_def resolve_mode_def
  or_default_def init_warnings_def sublist_code
  on_epoch_begin_def on_epoch_end_def on_train_batch_end_def should_save_on_batch_def
  save_model_def get_file_path_def format_kwargs_def py_format_def render_field_def
  format_int_def too_many_digits_def is_digit_def nat_of_digits_def digit_val_def str_nat.simps digit_char_def
  try_body_def write_model_def the_save_kind_def skip_warning_def
  np_less_def np_greater_def plain_env_def no_logs_def loss_logs_def batch_logs_def epoch_logs_def

lemma get_file_path_epochs [simp]:
  "get_file_path env (self\<lparr>epochs_since_last_save := n\<rparr>) epoch batch logs =
     map_sum id (\<lambda>(p, s). (p, s\<lparr>epochs_since_last_save := n\<rparr>)) (get_file_path env self epoch batch logs)"
  by (auto simp: get_file_path_def Let_def split: sum.splits)

lemma get_file_path_fails:
  assumes "Fld name spec \<in> set (tokenize (filepath self))"
    and "name \<noteq> ''epoch''" and "batch \<noteq> None \<longrightarrow> name \<noteq> ''batch''" and "logs name = None"
  shows "isl (get_file_path env self epoch batch logs)"
proof (cases "format_kwargs epoch batch logs")
  case (Inl e)
  then show ?thesis by (simp add: get_file_path_def)
next
  case (Inr kw)
  with assms have none: "kw name = None"
    by (auto simp: format_kwargs_Inr split: option.splits if_splits)
  have "isl (render env kw (tokenize (filepath self)))"
  proof (cases "render env kw (tokenize (filepath self))")
    case (Inr out)
    from render_fields_supplied [OF this assms(1)] none show ?thesis by simp
  qed simp
  with Inr show ?thesis
    by (auto simp: get_file_path_def py_format_def Let_def split: sum.splits)
qed

lemma render_missing:
  assumes "render env kw pre = Inr out" and "kw name = None" and "\<not> list_all is_digit name"
  shows "render env kw (pre @ Fld name spec # post) = Inl (KeyError name)"
  using assms by (simp add: render_append render_field_def)

lemma get_file_path_key_error:
  assumes "tokenize (filepath self) = pre @ Fld name spec # post"
    and "format_kwargs epoch batch logs = Inr kw" and "render env kw pre = Inr out"
    and "kw name = None" and "\<not> list_all is_digit name"
  shows "get_file_path env self epoch batch logs = Inl (KeyError name)"
  using assms render_missing [OF assms(3,4,5), of spec post]
  by (simp add: get_file_path_def py_format_def)

lemma save_model_path_error:
  assumes "get_file_path env self epoch batch logs = Inl e"
    and "save_freq self \<noteq> Epoch \<or> period self \<le> epochs_since_last_save self"
  shows "save_model env self epoch batch (Some logs) = (Some e, self\<lparr>epochs_since_last_save := 0\<rparr>)"
  using assms by (auto simp: save_model_def Let_def)

lemma render_split:
  assumes "render env kw (pre @ Fld name spec # post) = Inr out"
  shows "\<exists>a v t c. render env kw pre = Inr a \<and> kw name = Some v \<and>
           format_value env v spec = Inr t \<and> render env kw post = Inr c \<and> out = a @ t @ c"
  using assms
  by (auto simp: render_append render_field_def split: sum.splits if_splits option.splits)

lemma run_monitor_op: "monitor_op (snd (run hs self)) = monitor_op self"
  using run_best [of hs self "fst (run hs self)" "snd (run hs self)"] by simp

lemmas fs_defs =
  get_most_recently_modified_file_matching_pattern_def three_losses_def three_tied_def
  dirname_def basename_def scan_dir_def scan_step_def scan_init_def path_join_def Let_def
  suffix_to_prefix matching_entries_def spec_locate_def

section \<open>Properties of the batch counter\<close>

text \<open>
  From any state of the counter the answers of \<open>_should_save_on_batch\<close> are those
  the specification gives after an earlier step with the index \<open>_last_batch_seen\<close>.
\<close>

lemma feed_batches_spec:
  "save_freq self = Steps n \<Longrightarrow>
     fst (feed_batches self bs) =
       spec_triggers n (Some (last_batch_seen self)) (batches_seen_since_last_saving self) bs"
proof (induction bs arbitrary: self)
  case Nil
  then show ?case by simp
next
  case (Cons b bs)
  obtain r self1 where one: "should_save_on_batch self b = (r, self1)"
    by (cases "should_save_on_batch self b")
  let ?total = "batches_seen_since_last_saving self +
                  (if b \<le> last_batch_seen self then b + 1 else b - last_batch_seen self)"
  from one Cons.prems have keep: "save_freq self1 = Steps n"
    and last: "last_batch_seen self1 = b"
    and r: "r \<longleftrightarrow> n \<le> ?total"
    and seen: "batches_seen_since_last_saving self1 = (if r then 0 else ?total)"
    by (auto simp: should_save_on_batch_def Let_def split: if_splits)
  have "fst (feed_batches self (b # bs)) = r # fst (feed_batches self1 bs)"
    using one by (simp split: prod.splits)
  also have "fst (feed_batches self1 bs) =
               spec_triggers n (Some b) (if r then 0 else ?total) bs"
    using Cons.IH [OF keep] last seen by simp
  finally show ?case
    using r by (simp add: Let_def)
qed

text \<open>
  C1. A new object has \<open>_last_batch_seen = 0\<close>, as if a step with index 0 had been
  seen already: a first call with a greater index counts one step too few. With
  \<open>save_freq = 3\<close> and three steps to a call (indices 2, 5, 8) three steps have been
  seen at the first call, where the specification triggers; the code counts two and
  triggers at the second call, after six steps. With one step to a call (indices 0, 1, 2
  and then 0 in the next epoch) the code does what the specification asks: one trigger,
  at the third call.
\<close>

theorem should_save_on_batch_first_call:
  "case init ((default_args ''w.h5'')\<lparr>a_save_freq := SFInt 3\<rparr>) of
     Inl e \<Rightarrow> False
   | Inr s \<Rightarrow>
       save_freq s = Steps 3 \<and>
       fst (feed_batches s [2, 5, 8]) = [False, True, True] \<and>
       spec_triggers 3 None 0 [2, 5, 8] = [True, True, True] \<and>
       fst (should_save_on_batch s 2) = False \<and>
       batches_seen_since_last_saving (snd (should_save_on_batch s 2)) = 2 \<and>
       fst (feed_batches s [0, 1, 2, 0]) = [False, False, True, False] \<and>
       spec_triggers 3 None 0 [0, 1, 2, 0] = [False, False, True, False] \<and>
       batches_seen_since_last_saving (snd (feed_batches s [0, 1, 2, 0])) = 1"
  by (simp add: init_def Let_def default_args_def options_ok_def should_save_on_batch_def)

section \<open>Properties of the best value\<close>

text \<open>
  C3. The stored best value changes only in a call of \<open>_save_model\<close> under
  \<open>save_best_only\<close> whose monitored value improves on it under the comparison of the
  object, and it then becomes that value. So over any session the best value at the end
  is the one at the start or improves on it: smaller under \<open>np.less\<close> (mode min),
  greater under \<open>np.greater\<close> (mode max). After construction it is the given
  threshold, or plus infinity under \<open>np.less\<close> and minus infinity under
  \<open>np.greater\<close>.
\<close>

theorem best_only_improves:
  "(best (snd (save_model env self epoch batch logs0)) \<noteq> best self \<longrightarrow>
      save_best_only self \<and>
      (case logs0 of None \<Rightarrow> Map.empty | Some l \<Rightarrow> l) (monitor self) =
        Some (best (snd (save_model env self epoch batch logs0))) \<and>
      apply_op (monitor_op self) (best (snd (save_model env self epoch batch logs0))) (best self)) \<and>
   (monitor_op self = Less \<longrightarrow>
      best (snd (run hs self)) = best self \<or> np_less (best (snd (run hs self))) (best self)) \<and>
   (monitor_op self = Greater \<longrightarrow>
      best (snd (run hs self)) = best self \<or> np_greater (best (snd (run hs self))) (best self)) \<and>
   (init a = Inr self \<longrightarrow>
      (a_mode a = ''min'' \<longrightarrow> monitor_op self = Less) \<and>
      (a_mode a = ''max'' \<longrightarrow> monitor_op self = Greater) \<and>
      best self = (case a_initial_value_threshold a of
                     Some v \<Rightarrow> v
                   | None \<Rightarrow> if monitor_op self = Less then PFloat PosInf else PFloat NegInf))"
proof -
  obtain r1 s1 where one: "save_model env self epoch batch logs0 = (r1, s1)"
    by (cases "save_model env self epoch batch logs0")
  obtain r2 s2 where all: "run hs self = (r2, s2)"
    by (cases "run hs self")
  from save_model_best [OF one] have a: "best s1 \<noteq> best self \<longrightarrow>
      save_best_only self \<and>
      (case logs0 of None \<Rightarrow> Map.empty | Some l \<Rightarrow> l) (monitor self) = Some (best s1) \<and>
      apply_op (monitor_op self) (best s1) (best self)"
    by blast
  from run_best [OF all]
  have b: "best s2 = best self \<or> apply_op (monitor_op self) (best s2) (best self)"
    by blast
  have c: "monitor_op self = Less \<longrightarrow> best s2 = best self \<or> np_less (best s2) (best self)"
    using b by auto
  have d: "monitor_op self = Greater \<longrightarrow> best s2 = best self \<or> np_greater (best s2) (best self)"
    using b by auto
  show ?thesis
    using a c d init_best [of a self] init_min_max [of a self] by (simp add: one all)
qed

theorem best_only_improves_witness:
  "case init best_only_args of
     Inl e \<Rightarrow> False
   | Inr s \<Rightarrow>
       monitor_op s = Less \<and> best s = PFloat PosInf \<and>
       best (snd (run three_epochs s)) = PFloat (Finite (3/10)) \<and>
       np_less (best (snd (run three_epochs s))) (best s) \<and>
       best (snd (save_model plain_env s 0 None (Some (loss_logs (1/2))))) = best s"
proof -
  obtain s where s: "init best_only_args = Inr s"
    by (simp add: best_only_args_def init_def Let_def default_args_def options_ok_def)
  have v: "best (snd (run three_epochs s)) = PFloat (Finite (3/10))"
    using s by (auto simp: best_only_args_def three_epochs_def eval_defs)
  have w: "best (snd (save_model plain_env s 0 None (Some (loss_logs (1/2))))) = best s"
    using s by (auto simp: best_only_args_def eval_defs)
  from best_only_improves [of plain_env s 0 None "Some (loss_logs (1/2))" three_epochs best_only_args]
    s v w show ?thesis
    by (auto simp: best_only_args_def default_args_def)
qed

section \<open>Properties of the file path\<close>

text \<open>
  C9, as amended. When the template has a placeholder whose name is not \<open>epoch\<close>, not
  \<open>batch\<close> in a call with a batch, and not a key of the logs, \<open>_get_file_path\<close>
  fails, and \<open>_save_model\<close> lets that error through before any call of \<open>save\<close>:
  the object is as before but for the epoch counter, which is back at zero. The error is
  the \<open>KeyError\<close> of that name when the logs have no key \<open>epoch\<close> (so that the
  call of \<open>format\<close> is well formed), the name is not a position, and the template to
  the left of the placeholder renders.
\<close>

theorem missing_placeholder_fails_before_write:
  assumes "Fld name spec \<in> set (tokenize (filepath self))"
    and "name \<noteq> ''epoch''" and "batch \<noteq> None \<longrightarrow> name \<noteq> ''batch''" and "logs name = None"
  shows "(\<exists>e. get_file_path env self epoch batch logs = Inl e \<and>
              (save_freq self \<noteq> Epoch \<or> period self \<le> epochs_since_last_save self \<longrightarrow>
                 save_model env self epoch batch (Some logs) =
                   (Some e, self\<lparr>epochs_since_last_save := 0\<rparr>))) \<and>
         (\<forall>pre post kw out.
             tokenize (filepath self) = pre @ Fld name spec # post \<and>
             format_kwargs epoch batch logs = Inr kw \<and> render env kw pre = Inr out \<and>
             \<not> list_all is_digit name \<longrightarrow>
             get_file_path env self epoch batch logs = Inl (KeyError name))"
proof -
  from assms have "isl (get_file_path env self epoch batch logs)"
    by (rule get_file_path_fails)
  then obtain e where e: "get_file_path env self epoch batch logs = Inl e"
    by (cases "get_file_path env self epoch batch logs") auto
  have first: "\<exists>e. get_file_path env self epoch batch logs = Inl e \<and>
              (save_freq self \<noteq> Epoch \<or> period self \<le> epochs_since_last_save self \<longrightarrow>
                 save_model env self epoch batch (Some logs) =
                   (Some e, self\<lparr>epochs_since_last_save := 0\<rparr>))"
    using e save_model_path_error [OF e] by blast
  have second: "get_file_path env self epoch batch logs = Inl (KeyError name)"
    if "tokenize (filepath self) = pre @ Fld name spec # post"
      and "format_kwargs epoch batch logs = Inr kw" and "render env kw pre = Inr out"
      and "\<not> list_all is_digit name" for pre post kw out
  proof -
    from that(2) assms(2,3,4) have none: "kw name = None"
      by (auto simp: format_kwargs_Inr split: option.splits if_splits)
    from get_file_path_key_error [OF that(1) that(2) that(3) none that(4)]
    show ?thesis .
  qed
  from first second show ?thesis by blast
qed

theorem missing_placeholder_witness:
  "case init (default_args ''w.{epoch:02d}-{foo}.h5'') of
     Inl e \<Rightarrow> False
   | Inr s \<Rightarrow>
       Fld ''foo'' [] \<in> set (tokenize (filepath s)) \<and>
       get_file_path plain_env s 0 None no_logs = Inl (KeyError ''foo'')"
proof -
  obtain s where s: "init (default_args ''w.{epoch:02d}-{foo}.h5'') = Inr s"
    by (simp add: init_def Let_def default_args_def options_ok_def)
  then have fp: "filepath s = ''w.{epoch:02d}-{foo}.h5''"
    by (auto simp: init_def Let_def default_args_def options_ok_def)
  have tok: "tokenize (filepath s) = map Lit ''w.'' @ [Fld ''epoch'' ''02d'', Lit CHR ''-''] @ Fld ''foo'' [] # map Lit ''.h5''"
    by (simp add: fp)
  have mem: "Fld ''foo'' [] \<in> set (tokenize (filepath s))"
    by (simp add: fp)
  have kw: "format_kwargs 0 None no_logs = Inr (no_logs(''epoch'' \<mapsto> PInt 1))"
    by (simp add: format_kwargs_def no_logs_def)
  have pre: "render plain_env (no_logs(''epoch'' \<mapsto> PInt 1))
               (map Lit ''w.'' @ [Fld ''epoch'' ''02d'', Lit CHR ''-'']) = Inr ''w.01-''"
    by (simp add: eval_defs)
  have dig: "\<not> list_all is_digit ''foo''"
    by (simp add: is_digit_def)
  have ne: "''foo'' \<noteq> ''epoch''" "None \<noteq> (None :: int option) \<longrightarrow> ''foo'' \<noteq> ''batch''"
    "no_logs ''foo'' = None"
    by (simp_all add: no_logs_def)
  have tok': "tokenize (filepath s) =
      (map Lit ''w.'' @ [Fld ''epoch'' ''02d'', Lit CHR ''-'']) @ Fld ''foo'' [] # map Lit ''.h5''"
    using tok by simp
  have both: "(\<exists>e. get_file_path plain_env s 0 None no_logs = Inl e \<and>
                 (save_freq s \<noteq> Epoch \<or> period s \<le> epochs_since_last_save s \<longrightarrow>
                    save_model plain_env s 0 None (Some no_logs) =
                      (Some e, s\<lparr>epochs_since_last_save := 0\<rparr>))) \<and>
              (\<forall>pre post kw out.
                  tokenize (filepath s) = pre @ Fld ''foo'' [] # post \<and>
                  format_kwargs 0 None no_logs = Inr kw \<and> render plain_env kw pre = Inr out \<and>
                  \<not> list_all is_digit ''foo'' \<longrightarrow>
                  get_file_path plain_env s 0 None no_logs = Inl (KeyError ''foo''))"
    using mem ne by (rule missing_placeholder_fails_before_write)
  from both [THEN conjunct2, rule_format, OF conjI [OF tok' conjI [OF kw conjI [OF pre dig]]]]
  have "get_file_path plain_env s 0 None no_logs = Inl (KeyError ''foo'')" .
  with s mem show ?thesis by simp
qed

text \<open>
  As stated, C9 asks for the missing-placeholder error in every such save. With a key
  \<open>epoch\<close> in the logs the call \<open>format(epoch=epoch + 1, **logs)\<close> has the keyword
  twice and raises \<open>TypeError\<close>, which the \<open>except KeyError\<close> clause lets pass.
\<close>

theorem missing_placeholder_counterexample:
  "case init (default_args ''w.{foo}.h5'') of
     Inl e \<Rightarrow> False
   | Inr s \<Rightarrow>
       Fld ''foo'' [] \<in> set (tokenize (filepath s)) \<and> epoch_logs ''foo'' = None \<and>
       on_epoch_end plain_env s 0 (Some epoch_logs) =
         (Some TypeError, s\<lparr>epochs_since_last_save := 0\<rparr>)"
  by (simp add: eval_defs)

text \<open>
  C4, as amended. In a save at the end of an epoch (no batch) the call of \<open>format\<close>
  gets the epoch and the logs only. A template with a \<open>batch\<close> placeholder then
  resolves only when the logs themselves have a key \<open>batch\<close>: when they have none,
  \<open>_get_file_path\<close> fails, with the \<open>KeyError\<close> of \<open>batch\<close> when the logs
  have no key \<open>epoch\<close> and the template to the left of the placeholder renders.
\<close>

theorem epoch_event_needs_batch_in_logs:
  assumes "Fld ''batch'' spec \<in> set (tokenize (filepath self))" and "logs ''batch'' = None"
  shows "isl (get_file_path env self epoch None logs) \<and>
         (logs ''epoch'' = None \<longrightarrow>
            format_kwargs epoch None logs = Inr (logs(''epoch'' \<mapsto> PInt (epoch + 1)))) \<and>
         (\<forall>pre post out.
             tokenize (filepath self) = pre @ Fld ''batch'' spec # post \<and>
             logs ''epoch'' = None \<and>
             render env (logs(''epoch'' \<mapsto> PInt (epoch + 1))) pre = Inr out \<longrightarrow>
             get_file_path env self epoch None logs = Inl (KeyError ''batch''))"
proof -
  have a: "isl (get_file_path env self epoch None logs)"
    using assms by (intro get_file_path_fails [where name = "''batch''" and spec = spec]) auto
  have b: "logs ''epoch'' = None \<longrightarrow>
            format_kwargs epoch None logs = Inr (logs(''epoch'' \<mapsto> PInt (epoch + 1)))"
    by (simp add: format_kwargs_Inr)
  have c: "get_file_path env self epoch None logs = Inl (KeyError ''batch'')"
    if t: "tokenize (filepath self) = pre @ Fld ''batch'' spec # post"
      and e: "logs ''epoch'' = None"
      and r: "render env (logs(''epoch'' \<mapsto> PInt (epoch + 1))) pre = Inr out" for pre post out
  proof -
    have kw: "format_kwargs epoch None logs = Inr (logs(''epoch'' \<mapsto> PInt (epoch + 1)))"
      using e by (simp add: format_kwargs_Inr)
    have none: "(logs(''epoch'' \<mapsto> PInt (epoch + 1))) ''batch'' = None"
      using assms(2) by simp
    have dig: "\<not> list_all is_digit ''batch''"
      by (simp add: is_digit_def)
    from get_file_path_key_error [OF t kw r none dig] show ?thesis .
  qed
  from a b c show ?thesis by blast
qed

text \<open>
  As stated, C4 asks for the resolution to succeed. For the template of the docstring of
  \<open>_get_most_recently_modified_file_matching_pattern\<close> and empty logs,
  \<open>on_epoch_end\<close> raises the \<open>KeyError\<close> of \<open>batch\<close>.
\<close>

theorem epoch_event_counterexample:
  "case init (default_args ''f.batch{batch:02d}epoch{epoch:02d}.h5'') of
     Inl e \<Rightarrow> False
   | Inr s \<Rightarrow>
       Fld ''batch'' ''02d'' \<in> set (tokenize (filepath s)) \<and>
       get_file_path plain_env s 0 None no_logs = Inl (KeyError ''batch'') \<and>
       on_epoch_end plain_env s 0 (Some no_logs) =
         (Some (KeyError ''batch''), s\<lparr>epochs_since_last_save := 0\<rparr>)"
  by (simp add: eval_defs)

theorem epoch_event_witness:
  "case init (default_args ''f.batch{batch:02d}epoch{epoch:02d}.h5'') of
     Inl e \<Rightarrow> False
   | Inr s \<Rightarrow>
       Fld ''batch'' ''02d'' \<in> set (tokenize (filepath s)) \<and> no_logs ''batch'' = None \<and>
       isl (get_file_path plain_env s 3 None no_logs) \<and>
       get_file_path plain_env s 3 None no_logs = Inl (KeyError ''batch'')"
proof -
  obtain s where s: "init (default_args ''f.batch{batch:02d}epoch{epoch:02d}.h5'') = Inr s"
    by (simp add: init_def Let_def default_args_def options_ok_def)
  then have fp: "filepath s = ''f.batch{batch:02d}epoch{epoch:02d}.h5''"
    by (auto simp: init_def Let_def default_args_def options_ok_def)
  have mem: "Fld ''batch'' ''02d'' \<in> set (tokenize (filepath s))"
    by (simp add: fp)
  have nb: "no_logs ''batch'' = None" and ne: "no_logs ''epoch'' = None"
    by (simp_all add: no_logs_def)
  have tok: "tokenize (filepath s) =
               map Lit ''f.batch'' @ Fld ''batch'' ''02d'' # map Lit ''epoch'' @ [Fld ''epoch'' ''02d''] @ map Lit ''.h5''"
    by (simp add: fp)
  have pre: "render plain_env (no_logs(''epoch'' \<mapsto> PInt (3 + 1))) (map Lit ''f.batch'') = Inr ''f.batch''"
    by simp
  note all = epoch_event_needs_batch_in_logs
               [where spec = "''02d''" and self = s and logs = no_logs and env = plain_env
                  and epoch = 3, OF mem nb]
  from all have "isl (get_file_path plain_env s 3 None no_logs)" by blast
  moreover from all [THEN conjunct2, THEN conjunct2, rule_format, OF conjI [OF tok conjI [OF ne pre]]]
  have "get_file_path plain_env s 3 None no_logs = Inl (KeyError ''batch'')" .
  ultimately show ?thesis using s mem nb by simp
qed

text \<open>
  C6, as amended. Whenever \<open>_get_file_path\<close> returns a path, the keyword arguments of
  the formatting give \<open>epoch\<close> the value \<open>epoch + 1\<close>, and give \<open>batch\<close> the value
  \<open>batch + 1\<close> when there is a batch and the logs have no key \<open>batch\<close>; when
  the logs have that key, or there is no batch, \<open>batch\<close> has the value of the logs,
  as every other key has; every
  placeholder of the template is replaced by its value under these arguments, rendered
  under its specification. The template \<open>ckpt-{epoch:02d}.bin\<close> with epoch 4 gives
  \<open>ckpt-05.bin\<close>, handed to \<open>write_filepath\<close>.
\<close>

theorem placeholders_are_one_indexed:
  "(get_file_path env self epoch batch logs = Inr (p, self') \<longrightarrow>
      (\<exists>kw. format_kwargs epoch batch logs = Inr kw \<and>
            kw ''epoch'' = Some (PInt (epoch + 1)) \<and>
            (\<forall>b. batch = Some b \<and> logs ''batch'' = None \<longrightarrow>
                 kw ''batch'' = Some (PInt (b + 1))) \<and>
            (batch = None \<or> logs ''batch'' \<noteq> None \<longrightarrow> kw ''batch'' = logs ''batch'') \<and>
            (\<forall>k. k \<noteq> ''epoch'' \<and> k \<noteq> ''batch'' \<longrightarrow> kw k = logs k) \<and>
            (\<forall>pre name spec post.
                tokenize (filepath self) = pre @ Fld name spec # post \<longrightarrow>
                (\<exists>a v t c. render env kw pre = Inr a \<and> kw name = Some v \<and>
                           format_value env v spec = Inr t \<and> render env kw post = Inr c \<and>
                           p = write_filepath_fn env (a @ t @ c))))) \<and>
   (filepath self = ''ckpt-{epoch:02d}.bin'' \<and> logs ''epoch'' = None \<longrightarrow>
      map_sum id fst (get_file_path env self 4 batch logs) =
        Inr (write_filepath_fn env ''ckpt-05.bin''))"
proof -
  have general: "\<exists>kw. format_kwargs epoch batch logs = Inr kw \<and>
            kw ''epoch'' = Some (PInt (epoch + 1)) \<and>
            (\<forall>b. batch = Some b \<and> logs ''batch'' = None \<longrightarrow>
                 kw ''batch'' = Some (PInt (b + 1))) \<and>
            (batch = None \<or> logs ''batch'' \<noteq> None \<longrightarrow> kw ''batch'' = logs ''batch'') \<and>
            (\<forall>k. k \<noteq> ''epoch'' \<and> k \<noteq> ''batch'' \<longrightarrow> kw k = logs k) \<and>
            (\<forall>pre name spec post.
                tokenize (filepath self) = pre @ Fld name spec # post \<longrightarrow>
                (\<exists>a v t c. render env kw pre = Inr a \<and> kw name = Some v \<and>
                           format_value env v spec = Inr t \<and> render env kw post = Inr c \<and>
                           p = write_filepath_fn env (a @ t @ c)))"
    if ok: "get_file_path env self epoch batch logs = Inr (p, self')"
  proof -
    from ok obtain kw out where kw: "format_kwargs epoch batch logs = Inr kw"
      and out: "render env kw (tokenize (filepath self)) = Inr out"
      and p: "p = write_filepath_fn env out"
      by (auto simp: get_file_path_def py_format_def Let_def split: sum.splits)
    from kw have e: "kw ''epoch'' = Some (PInt (epoch + 1))"
      by (auto simp: format_kwargs_Inr split: option.splits if_splits)
    from kw have b: "\<forall>b. batch = Some b \<and> logs ''batch'' = None \<longrightarrow>
                 kw ''batch'' = Some (PInt (b + 1))"
      by (auto simp: format_kwargs_Inr split: option.splits if_splits)
    have f: "\<exists>a v t c. render env kw pre = Inr a \<and> kw name = Some v \<and>
                           format_value env v spec = Inr t \<and> render env kw post = Inr c \<and>
                           p = write_filepath_fn env (a @ t @ c)"
      if "tokenize (filepath self) = pre @ Fld name spec # post" for pre name spec post
      using render_split [of env kw pre name spec post out] out that p by auto
    from kw have l: "batch = None \<or> logs ''batch'' \<noteq> None \<longrightarrow> kw ''batch'' = logs ''batch''"
      by (auto simp: format_kwargs_Inr split: option.splits if_splits)
    from kw have o: "\<forall>k. k \<noteq> ''epoch'' \<and> k \<noteq> ''batch'' \<longrightarrow> kw k = logs k"
      by (auto simp: format_kwargs_Inr split: option.splits if_splits)
    from kw e b l o f show ?thesis by blast
  qed
  have example: "map_sum id fst (get_file_path env self 4 batch logs) =
        Inr (write_filepath_fn env ''ckpt-05.bin'')"
    if "filepath self = ''ckpt-{epoch:02d}.bin''" "logs ''epoch'' = None"
    using that
    by (cases batch)
       (simp_all add: get_file_path_def format_kwargs_def py_format_def render_field_def
          format_int_def too_many_digits_def is_digit_def nat_of_digits_def digit_val_def str_nat.simps
          digit_char_def Let_def)
  from general example show ?thesis by blast
qed

text \<open>
  As stated, C6 has the batch placeholder one-indexed whenever there is a batch. When the
  logs have a key \<open>batch\<close>, the guard \<open>"batch" in logs\<close> leaves the batch out of the
  call and the placeholder takes the value of the logs: batch 5 with \<open>batch: 2\<close> in the
  logs gives \<open>w.02.h5\<close>, and \<open>w.06.h5\<close> with empty logs.
\<close>

theorem placeholders_counterexample:
  "case init ((default_args ''w.{batch:02d}.h5'')\<lparr>a_save_freq := SFInt 1\<rparr>) of
     Inl e \<Rightarrow> False
   | Inr s \<Rightarrow>
       map_sum id fst (get_file_path plain_env s 0 (Some 5) batch_logs) = Inr ''w.02.h5'' \<and>
       map_sum id fst (get_file_path plain_env s 0 (Some 5) no_logs) = Inr ''w.06.h5''"
  by (simp add: eval_defs)

theorem placeholders_witness:
  "case init (default_args ''ckpt-{epoch:02d}.bin'') of
     Inl e \<Rightarrow> False
   | Inr s \<Rightarrow>
       filepath s = ''ckpt-{epoch:02d}.bin'' \<and> no_logs ''epoch'' = None \<and>
       map_sum id fst (get_file_path plain_env s 4 None no_logs) = Inr ''ckpt-05.bin''"
proof -
  obtain s where s: "init (default_args ''ckpt-{epoch:02d}.bin'') = Inr s"
    by (simp add: init_def Let_def default_args_def options_ok_def)
  then have fp: "filepath s = ''ckpt-{epoch:02d}.bin''"
    by (auto simp: init_def Let_def default_args_def options_ok_def)
  have ne: "no_logs ''epoch'' = None"
    by (simp add: no_logs_def)
  from placeholders_are_one_indexed [of plain_env s 4 None no_logs, THEN conjunct2] fp ne
  have "map_sum id fst (get_file_path plain_env s 4 None no_logs) =
          Inr (write_filepath_fn plain_env ''ckpt-05.bin'')"
    by blast
  with s fp ne show ?thesis by (simp add: plain_env_def)
qed

section \<open>Properties of a save without the monitored value\<close>

text \<open>
  C8, as amended. In a call of \<open>_save_model\<close> under \<open>save_best_only\<close> whose logs
  have no value for the monitored name, the best value is as before and there is no call
  of \<open>save\<close>. When the call reaches the saving interval and the file path resolves, no
  exception leaves the method and the only events are the warning and the removal of the
  temporary file.
\<close>

theorem unavailable_metric_skips_save:
  assumes "save_best_only self" and "logs (monitor self) = None"
  shows "best (snd (save_model env self epoch batch (Some logs))) = best self \<and>
         (\<exists>new. events (snd (save_model env self epoch batch (Some logs))) = events self @ new \<and>
                set new \<subseteq> {skip_warning (monitor self)} \<union> range RemoveTemp) \<and>
         (\<forall>fp self1.
             (save_freq self \<noteq> Epoch \<or> period self \<le> epochs_since_last_save self) \<and>
             get_file_path env self epoch batch logs = Inr (fp, self1) \<longrightarrow>
             save_model env self epoch batch (Some logs) =
               (None, self\<lparr>epochs_since_last_save := 0, write_filepath := Some fp,
                           events := events self @ [skip_warning (monitor self), RemoveTemp fp]\<rparr>))"
proof -
  have skipped: "save_model env self epoch batch (Some logs) =
               (None, self\<lparr>epochs_since_last_save := 0, write_filepath := Some fp,
                           events := events self @ [skip_warning (monitor self), RemoveTemp fp]\<rparr>)"
    if i: "save_freq self \<noteq> Epoch \<or> period self \<le> epochs_since_last_save self"
      and g: "get_file_path env self epoch batch logs = Inr (fp, self1)" for fp self1
  proof -
    from g have "self1 = self\<lparr>write_filepath := Some fp\<rparr>"
      by (rule get_file_path_keeps)
    with assms i g show ?thesis
      by (auto simp: save_model_def try_body_def Let_def)
  qed
  have unchanged: "best (snd (save_model env self epoch batch (Some logs))) = best self"
    using save_model_best [of env self epoch batch "Some logs"
                              "fst (save_model env self epoch batch (Some logs))"
                              "snd (save_model env self epoch batch (Some logs))"] assms
    by auto
  have quiet: "\<exists>new. events (snd (save_model env self epoch batch (Some logs))) = events self @ new \<and>
                set new \<subseteq> {skip_warning (monitor self)} \<union> range RemoveTemp"
  proof (cases "save_freq self \<noteq> Epoch \<or> period self \<le> epochs_since_last_save self")
    case False
    then show ?thesis by (simp add: save_model_def)
  next
    case True
    show ?thesis
    proof (cases "get_file_path env self epoch batch logs")
      case (Inl e)
      from save_model_path_error [OF Inl True] show ?thesis by simp
    next
      case (Inr r)
      obtain fp self1 where "r = (fp, self1)" by (cases r)
      with Inr skipped [OF True] show ?thesis by simp
    qed
  qed
  from skipped unchanged quiet show ?thesis by blast
qed

text \<open>
  As stated, C8 has no exception in any such event. The file path is resolved before the
  monitored value is looked up, so with a template that names the missing metric
  \<open>on_epoch_end\<close> raises its \<open>KeyError\<close> and logs no warning.
\<close>

theorem unavailable_metric_counterexample:
  "case init ((default_args ''w.{val_loss:.2f}.h5'')\<lparr>a_save_best_only := True\<rparr>) of
     Inl e \<Rightarrow> False
   | Inr s \<Rightarrow>
       save_best_only s \<and> no_logs (monitor s) = None \<and>
       on_epoch_end plain_env s 0 (Some no_logs) =
         (Some (KeyError ''val_loss''), s\<lparr>epochs_since_last_save := 0\<rparr>)"
  by (simp add: eval_defs)

theorem unavailable_metric_witness:
  "case init ((default_args ''w.{epoch:02d}.h5'')\<lparr>a_save_best_only := True, a_save_freq := SFInt 1\<rparr>) of
     Inl e \<Rightarrow> False
   | Inr s \<Rightarrow>
       save_best_only s \<and> no_logs (monitor s) = None \<and> save_freq s \<noteq> Epoch \<and>
       map_sum id fst (get_file_path plain_env s 0 (Some 0) no_logs) = Inr ''w.01.h5'' \<and>
       fst (save_model plain_env s 0 (Some 0) (Some no_logs)) = None \<and>
       best (snd (save_model plain_env s 0 (Some 0) (Some no_logs))) = best s \<and>
       events (snd (save_model plain_env s 0 (Some 0) (Some no_logs))) =
         [skip_warning ''val_loss'', RemoveTemp ''w.01.h5'']"
proof -
  obtain s where s: "init ((default_args ''w.{epoch:02d}.h5'')\<lparr>a_save_best_only := True, a_save_freq := SFInt 1\<rparr>) = Inr s"
    by (simp add: init_def Let_def default_args_def options_ok_def)
  then have f: "save_best_only s" "monitor s = ''val_loss''" "save_freq s = Steps 1"
    "events s = []" "filepath s = ''w.{epoch:02d}.h5''"
    by (auto simp: init_def Let_def default_args_def options_ok_def init_warnings_def known_mode_def)
  have n: "no_logs (monitor s) = None"
    by (simp add: no_logs_def)
  have g: "get_file_path plain_env s 0 (Some 0) no_logs =
             Inr (''w.01.h5'', s\<lparr>write_filepath := Some ''w.01.h5''\<rparr>)"
    using f(5) by (simp add: eval_defs)
  have i: "save_freq s \<noteq> Epoch \<or> period s \<le> epochs_since_last_save s"
    using f(3) by simp
  from unavailable_metric_skips_save
         [where self = s and logs = no_logs and env = plain_env and epoch = 0
            and batch = "Some 0", OF f(1) n, THEN conjunct2, THEN conjunct2, rule_format,
          OF conjI [OF i g]]
       s f n g
  show ?thesis
    by simp
qed

section \<open>Properties of the construction\<close>

text \<open>
  C5, as amended. With options that pass their check, \<open>__init__\<close> raises the
  \<open>ValueError\<close> exactly for a \<open>save_freq\<close> that is neither the string \<open>epoch\<close> nor
  an instance of \<open>int\<close>; for \<open>epoch\<close> and for every integer, positive or not, the
  construction succeeds and keeps that frequency.
\<close>

theorem init_save_freq_check:
  assumes "options_ok (a_save_weights_only a) (a_options a)"
  shows "(init a = Inl ValueError \<longleftrightarrow>
            a_save_freq a \<noteq> SFStr ''epoch'' \<and> (\<forall>n. a_save_freq a \<noteq> SFInt n) \<and>
            (\<forall>b. a_save_freq a \<noteq> SFBool b)) \<and>
         (init a \<noteq> Inl ValueError \<longrightarrow>
            (\<exists>s. init a = Inr s \<and>
                 save_freq s = (case a_save_freq a of
                                  SFInt n \<Rightarrow> Steps n
                                | SFBool b \<Rightarrow> Steps (if b then 1 else 0)
                                | _ \<Rightarrow> Epoch)))"
  using assms by (cases "a_save_freq a") (auto simp: init_def Let_def)

text \<open>
  As stated, C5 has the construction fail for an integer that is not positive. The check
  is \<open>isinstance(self.save_freq, int)\<close>: zero and minus five are accepted.
\<close>

theorem init_save_freq_counterexample:
  "map_sum id save_freq (init ((default_args ''w.h5'')\<lparr>a_save_freq := SFInt 0\<rparr>)) = Inr (Steps 0) \<and>
   map_sum id save_freq (init ((default_args ''w.h5'')\<lparr>a_save_freq := SFInt (- 5)\<rparr>)) = Inr (Steps (- 5))"
  by (simp add: init_def Let_def default_args_def options_ok_def)

theorem init_save_freq_witness:
  "options_ok (a_save_weights_only ((default_args ''w.h5'')\<lparr>a_save_freq := SFStr ''batch''\<rparr>))
              (a_options ((default_args ''w.h5'')\<lparr>a_save_freq := SFStr ''batch''\<rparr>)) \<and>
   init ((default_args ''w.h5'')\<lparr>a_save_freq := SFStr ''batch''\<rparr>) = Inl ValueError \<and>
   init ((default_args ''w.h5'')\<lparr>a_save_freq := SFFloat (Finite (5/2))\<rparr>) = Inl ValueError \<and>
   init ((default_args ''w.h5'')\<lparr>a_save_freq := SFInt 7\<rparr>) \<noteq> Inl ValueError \<and>
   map_sum id save_freq (init ((default_args ''w.h5'')\<lparr>a_save_freq := SFInt 7\<rparr>)) = Inr (Steps 7)"
proof -
  have o: "options_ok (a_save_weights_only ((default_args ''w.h5'')\<lparr>a_save_freq := x\<rparr>))
              (a_options ((default_args ''w.h5'')\<lparr>a_save_freq := x\<rparr>))" for x
    by (simp add: default_args_def options_ok_def)
  from init_save_freq_check [OF o [of "SFStr ''batch''"]]
  have a: "init ((default_args ''w.h5'')\<lparr>a_save_freq := SFStr ''batch''\<rparr>) = Inl ValueError"
    by simp
  from init_save_freq_check [OF o [of "SFFloat (Finite (5/2))"]]
  have b: "init ((default_args ''w.h5'')\<lparr>a_save_freq := SFFloat (Finite (5/2))\<rparr>) = Inl ValueError"
    by simp
  from init_save_freq_check [OF o [of "SFInt 7"]]
  have c: "init ((default_args ''w.h5'')\<lparr>a_save_freq := SFInt 7\<rparr>) \<noteq> Inl ValueError"
    and d: "map_sum id save_freq (init ((default_args ''w.h5'')\<lparr>a_save_freq := SFInt 7\<rparr>)) = Inr (Steps 7)"
    by auto
  from o a b c d show ?thesis by blast
qed

text \<open>
  C7, as amended. Under mode \<open>auto\<close> the constructor chooses the comparison from the
  monitored name: \<open>np.greater\<close>, with minus infinity for a missing threshold, when the
  name contains \<open>acc\<close> or begins with \<open>fmeasure\<close>; \<open>np.less\<close>, with plus
  infinity, for every other name. No hook changes the comparison afterwards. The name
  \<open>accuracy\<close> gives \<open>np.greater\<close> and \<open>val_loss\<close> gives \<open>np.less\<close>.
\<close>

theorem auto_mode_by_name:
  assumes "init a = Inr self" and "a_mode a = ''auto''"
  shows "(if sublist ''acc'' (a_monitor a) \<or> prefix ''fmeasure'' (a_monitor a)
          then monitor_op self = Greater \<and>
               best self = (case a_initial_value_threshold a of None \<Rightarrow> PFloat NegInf | Some v \<Rightarrow> v)
          else monitor_op self = Less \<and>
               best self = (case a_initial_value_threshold a of None \<Rightarrow> PFloat PosInf | Some v \<Rightarrow> v)) \<and>
         monitor_op (snd (run hs self)) = monitor_op self \<and>
         fst (resolve_mode ''auto'' ''accuracy'' None) = Greater \<and>
         fst (resolve_mode ''auto'' ''val_loss'' None) = Less"
proof -
  have "if sublist ''acc'' (a_monitor a) \<or> prefix ''fmeasure'' (a_monitor a)
          then monitor_op self = Greater \<and>
               best self = (case a_initial_value_threshold a of None \<Rightarrow> PFloat NegInf | Some v \<Rightarrow> v)
          else monitor_op self = Less \<and>
               best self = (case a_initial_value_threshold a of None \<Rightarrow> PFloat PosInf | Some v \<Rightarrow> v)"
    using assms
    by (auto simp: init_def Let_def resolve_mode_def known_mode_def or_default_def
             split: if_splits option.splits)
  moreover have "fst (resolve_mode ''auto'' ''accuracy'' None) = Greater"
    by (simp add: resolve_mode_def sublist_code)
  moreover have "fst (resolve_mode ''auto'' ''val_loss'' None) = Less"
    by (simp add: resolve_mode_def sublist_code)
  ultimately show ?thesis using run_monitor_op [of hs self] by simp
qed

text \<open>
  As stated, C7 has every name with an F-measure-like part resolve to the maximum. The
  test is \<open>self.monitor.startswith("fmeasure")\<close>: the name \<open>val_fmeasure\<close> contains
  \<open>fmeasure\<close>, does not begin with it, and resolves to \<open>np.less\<close> and plus infinity.
\<close>

theorem auto_mode_counterexample:
  "sublist ''fmeasure'' ''val_fmeasure'' \<and>
   map_sum id monitor_op (init ((default_args ''w.h5'')\<lparr>a_monitor := ''val_fmeasure''\<rparr>)) = Inr Less \<and>
   map_sum id best (init ((default_args ''w.h5'')\<lparr>a_monitor := ''val_fmeasure''\<rparr>)) = Inr (PFloat PosInf)"
  by (simp add: init_def Let_def default_args_def options_ok_def resolve_mode_def known_mode_def
        or_default_def sublist_code)

theorem auto_mode_witness:
  "(case init ((default_args ''w.h5'')\<lparr>a_monitor := ''accuracy''\<rparr>) of
      Inl e \<Rightarrow> False
    | Inr s \<Rightarrow> monitor_op s = Greater \<and> best s = PFloat NegInf \<and>
               monitor_op (snd (run three_epochs s)) = Greater) \<and>
   (case init (default_args ''w.h5'') of
      Inl e \<Rightarrow> False
    | Inr s \<Rightarrow> monitor_op s = Less \<and> best s = PFloat PosInf)"
proof -
  obtain s where s: "init ((default_args ''w.h5'')\<lparr>a_monitor := ''accuracy''\<rparr>) = Inr s"
    by (simp add: init_def Let_def default_args_def options_ok_def)
  obtain t where t: "init (default_args ''w.h5'') = Inr t"
    by (simp add: init_def Let_def default_args_def options_ok_def)
  have m: "a_mode ((default_args ''w.h5'')\<lparr>a_monitor := ''accuracy''\<rparr>) = ''auto''"
    "a_mode (default_args ''w.h5'') = ''auto''"
    by (simp_all add: default_args_def)
  from auto_mode_by_name [OF s m(1), of three_epochs]
  have a: "monitor_op s = Greater \<and> best s = PFloat NegInf \<and>
           monitor_op (snd (run three_epochs s)) = Greater"
    by (simp add: default_args_def sublist_code)
  from auto_mode_by_name [OF t m(2), of "[]"]
  have b: "monitor_op t = Less \<and> best t = PFloat PosInf"
    by (simp add: default_args_def sublist_code)
  from a b s t show ?thesis by simp
qed

text \<open>
  C10. With a mode other than \<open>auto\<close>, \<open>min\<close> and \<open>max\<close> the constructor does
  what it does for \<open>auto\<close> and logs one more warning, that of the unknown mode: it
  raises no error of its own, and when the options and \<open>save_freq\<close> pass their checks
  the object is built with the comparison chosen from the monitored name.
\<close>

theorem unknown_mode_falls_back:
  assumes "a_mode a \<notin> {''auto'', ''min'', ''max''}"
  shows "init a = map_sum id (\<lambda>s. s\<lparr>events := events s @ [mode_warning (a_mode a)]\<rparr>)
                    (init (a\<lparr>a_mode := ''auto''\<rparr>)) \<and>
         (options_ok (a_save_weights_only a) (a_options a) \<and>
          check_save_freq (a_save_freq a) \<noteq> None \<longrightarrow>
            (\<exists>s. init a = Inr s \<and> mode_warning (a_mode a) \<in> set (events s) \<and>
                 (monitor_op s, best s) =
                   resolve_mode ''auto'' (a_monitor a) (a_initial_value_threshold a)))"
  using assms
  by (auto simp: init_def Let_def known_mode_def init_warnings_def split: option.splits)

theorem unknown_mode_witness:
  "a_mode ((default_args ''w.h5'')\<lparr>a_mode := ''lowest''\<rparr>) \<notin> {''auto'', ''min'', ''max''} \<and>
   (case init ((default_args ''w.h5'')\<lparr>a_mode := ''lowest''\<rparr>) of
      Inl e \<Rightarrow> False
    | Inr s \<Rightarrow> events s = [mode_warning ''lowest''] \<and> monitor_op s = Less \<and>
               best s = PFloat PosInf)"
proof -
  have m: "a_mode ((default_args ''w.h5'')\<lparr>a_mode := ''lowest''\<rparr>) \<notin> {''auto'', ''min'', ''max''}"
    by (simp add: default_args_def)
  have i: "init ((default_args ''w.h5'')\<lparr>a_mode := ''lowest'', a_mode := ''auto''\<rparr>) =
             Inr \<lparr>filepath = ''w.h5'', has_model_name = False, monitor = ''val_loss'',
                  verbose = 0, save_best_only = False, save_weights_only = False,
                  save_freq = Epoch, epochs_since_last_save = 0,
                  batches_seen_since_last_saving = 0, last_batch_seen = 0,
                  best = PFloat PosInf, monitor_op = Less, period = 1,
                  load_weights_on_restart = False, current_epoch = None,
                  write_filepath = None, events = []\<rparr>"
    by (simp add: init_def Let_def default_args_def options_ok_def known_mode_def
          resolve_mode_def or_default_def init_warnings_def sublist_code)
  from unknown_mode_falls_back [OF m, THEN conjunct1] i m show ?thesis
    by (simp add: default_args_def)
qed

section \<open>Properties of the scan of the directory\<close>

text \<open>
  C2. The scan is to return the matching entry modified last and, among several modified
  last, the greatest path of those. The loop keeps the greatest path of all matching
  entries, not of the ones modified last: in the directory \<open>three_losses\<close> two files
  share the latest time, and the function returns the third, older file, whose name is
  the greatest, where the specification gives the greater of the two. In the directory of
  the docstring, where all three files share one time, the function returns the
  greatest path, as the specification does.
\<close>

theorem locate_returns_older_file:
  "get_most_recently_modified_file_matching_pattern three_losses ''ckpts/w.{val_loss:.2f}.h5'' =
     Some ''ckpts/w.0.90.h5'' \<and>
   matching_entries three_losses ''ckpts'' ''w.{val_loss:.2f}.h5'' =
     [(''ckpts/w.0.90.h5'', 100), (''ckpts/w.0.50.h5'', 200), (''ckpts/w.0.40.h5'', 200)] \<and>
   spec_locate (matching_entries three_losses ''ckpts'' ''w.{val_loss:.2f}.h5'') =
     Some ''ckpts/w.0.50.h5'' \<and>
   get_most_recently_modified_file_matching_pattern three_tied
       ''tmp/f.batch{batch:02d}epoch{epoch:02d}.h5'' = Some ''tmp/f.batch03epoch02.h5'' \<and>
   spec_locate (matching_entries three_tied ''tmp'' ''f.batch{batch:02d}epoch{epoch:02d}.h5'') =
     Some ''tmp/f.batch03epoch02.h5''"
  by (simp add: fs_defs)

end
